theory Spec2Isabelle
  imports Main
begin

section \<open>Go values, errors and the client\<close>

text \<open>
  The client hands its arguments to \<^verbatim>\<open>json.Marshal\<close> and returns what
  \<^verbatim>\<open>json.Decoder.Decode\<close> produced, without ever looking inside. A dynamic Go value
  (\<^verbatim>\<open>interface{}\<close>) is therefore a small tree: the nil interface, strings, string slices
  (\<^verbatim>\<open>[]string\<close>, nil or not), slices and maps of dynamic values (a nil map is \<open>None\<close>),
  and an opaque token for any other value (a number, a struct, a channel).
  A map literal is listed in the order the source writes its keys, which are distinct.
\<close>

datatype go_value =
    GoNil
  | GoBool bool
  | GoString string
  | GoStrings "string list option"
  | GoSlice "go_value list"
  | GoMap "(string \<times> go_value) list option"
  | GoOther nat

type_synonym go_map = "(string \<times> go_value) list option"

text \<open>
  A Go \<^verbatim>\<open>error\<close> is tagged with the call that produced it: \<open>Errorf\<close> is the value
  built by \<^verbatim>\<open>fmt.Errorf\<close> in \<^verbatim>\<open>validateDatabase\<close>; the others carry the message of
  the failing library call (\<^verbatim>\<open>json.Marshal\<close>, \<^verbatim>\<open>http.NewRequest\<close>,
  \<^verbatim>\<open>http.Client.Do\<close>, \<^verbatim>\<open>io.ReadAll\<close>, \<^verbatim>\<open>json.Decoder.Decode\<close>).
\<close>

datatype error =
    Errorf string
  | MarshalError string
  | NewRequestError string
  | DoError string
  | ReadError string
  | DecodeError string

record MenousDB =
  URL :: string
  Key :: string
  Database :: string

section \<open>The HTTP boundary\<close>

record request =
  req_method :: string
  req_url :: string
  req_header :: "string \<rightharpoonup> string"
  req_body :: "string option"

text \<open>
  A response body is an \<^verbatim>\<open>io.Reader\<close>: the sequence of results its \<^verbatim>\<open>Read\<close> calls
  will give, each a block of bytes or a failure; once the list is used up every
  \<^verbatim>\<open>Read\<close> reports \<^verbatim>\<open>io.EOF\<close>.
\<close>

datatype read_event = Data string | Failure string

type_synonym reader = "read_event list"

record response =
  StatusCode :: nat
  Body :: reader

text \<open>
  \<^verbatim>\<open>io.ReadAll\<close> reads until \<^verbatim>\<open>io.EOF\<close> or the first failure and returns the bytes
  read so far together with the failure, if any.
\<close>

fun io_ReadAll :: "reader \<Rightarrow> string \<times> string option" where
  "io_ReadAll [] = ([], None)"
| "io_ReadAll (Data bs # r) = (case io_ReadAll r of (d, e) \<Rightarrow> (bs @ d, e))"
| "io_ReadAll (Failure e # r) = ([], Some e)"

text \<open>
  What the standard library and the network do is a parameter of the model:
  \<^item> \<open>json_Marshal v\<close> is the encoding of \<open>v\<close> or the message of the failure;
  \<^item> \<open>NewRequest_error method url\<close> is the failure of \<^verbatim>\<open>http.NewRequest\<close>, if any
    (an invalid method, a URL that does not parse);
  \<^item> \<open>client_Do sent req\<close> is the outcome of \<^verbatim>\<open>client.Do(req)\<close> after the requests
    \<open>sent\<close> have been performed;
  \<^item> \<open>json_Decode_map r\<close> and \<open>json_Decode_any r\<close> are \<^verbatim>\<open>json.NewDecoder(r).Decode\<close>
    into a \<^verbatim>\<open>map[string]interface{}\<close> and into an \<^verbatim>\<open>interface{}\<close>: the value or the
    failure, and the reader as the decoder's own reads have left it.
\<close>

record library =
  json_Marshal :: "go_value \<Rightarrow> string + string"
  NewRequest_error :: "string \<Rightarrow> string \<Rightarrow> string option"
  client_Do :: "request list \<Rightarrow> request \<Rightarrow> string + response"
  json_Decode_map :: "reader \<Rightarrow> (string + go_map) \<times> reader"
  json_Decode_any :: "reader \<Rightarrow> (string + go_value) \<times> reader"

text \<open>
  The state a method runs in: the struct behind its pointer receiver and the requests
  handed to \<^verbatim>\<open>client.Do\<close> so far, oldest first.
\<close>

record state =
  receiver :: MenousDB
  sent :: "request list"

section \<open>The client's functions\<close>

definition HasSuffix :: "string \<Rightarrow> string \<Rightarrow> bool" where
  "HasSuffix s suffix =
     (length suffix \<le> length s \<and> drop (length s - length suffix) s = suffix)"

definition NewMenousDB :: "string \<Rightarrow> string \<Rightarrow> string \<Rightarrow> MenousDB" where
  "NewMenousDB url key database =
     (let url = (if \<not> HasSuffix url ''/'' then url @ ''/'' else url)
      in \<lparr>URL = url, Key = key, Database = database\<rparr>)"

definition validateDatabase :: "MenousDB \<Rightarrow> error option" where
  "validateDatabase m =
     (if Database m = [] then Some (Errorf ''no database specified'') else None)"

definition http_NewRequest ::
  "library \<Rightarrow> string \<Rightarrow> string \<Rightarrow> string option \<Rightarrow> error + request" where
  "http_NewRequest L method url body =
     (case NewRequest_error L method url of
        Some e \<Rightarrow> Inl (NewRequestError e)
      | None \<Rightarrow>
          Inr \<lparr>req_method = method, req_url = url, req_header = Map.empty, req_body = body\<rparr>)"

text \<open>
  \<^verbatim>\<open>req.Header.Set(k, v)\<close> replaces the value of header \<open>k\<close>. Header names are
  written as the source writes them: HTTP compares them without regard to case, Go files
  them in canonical case, and the four names the client uses differ in any case.
\<close>

definition Header_Set :: "string \<Rightarrow> string \<Rightarrow> request \<Rightarrow> request" where
  "Header_Set k v req = req\<lparr>req_header := (req_header req)(k \<mapsto> v)\<rparr>"

text \<open>
  \<^verbatim>\<open>client.Do(req)\<close> on a fresh \<^verbatim>\<open>http.Client\<close>: the request is recorded as sent,
  whatever the outcome. One call is one request of the client; what the library does
  inside the call (following a redirect) is part of its outcome.
\<close>

definition Do :: "library \<Rightarrow> request \<Rightarrow> state \<Rightarrow> (error + response) \<times> state" where
  "Do L req s =
     (case client_Do L (sent s) req of
        Inl e \<Rightarrow> (Inl (DoError e), s\<lparr>sent := sent s @ [req]\<rparr>)
      | Inr resp \<Rightarrow> (Inr resp, s\<lparr>sent := sent s @ [req]\<rparr>))"

definition makeRequest ::
  "library \<Rightarrow> string \<Rightarrow> string \<Rightarrow> (string \<times> string) list \<Rightarrow> go_value \<Rightarrow> state
     \<Rightarrow> (error + response) \<times> state" where
  "makeRequest L method endpoint headers body s =
     (let url = URL (receiver s) @ endpoint in
      case (if body \<noteq> GoNil
            then (case json_Marshal L body of
                    Inl err \<Rightarrow> Inl (MarshalError err)
                  | Inr jsonBody \<Rightarrow> Inr (Some jsonBody))
            else Inr None) of
        Inl err \<Rightarrow> (Inl err, s)
      | Inr bodyReader \<Rightarrow>
          (case http_NewRequest L method url bodyReader of
             Inl err \<Rightarrow> (Inl err, s)
           | Inr req \<Rightarrow>
               (let req = Header_Set ''Content-Type'' ''application/json'' req;
                    req = fold (\<lambda>(k, v). Header_Set k v) headers req
                in Do L req s)))"

text \<open>
  Every method below takes the library and the state and returns the pair of results Go
  returns, as a sum (\<open>Inl\<close> the non-nil error), with the state it leaves.
  \<^verbatim>\<open>ReadDB\<close> decodes into a map and returns a decoding failure as its error.
\<close>

definition ReadDB :: "library \<Rightarrow> state \<Rightarrow> (error + go_map) \<times> state" where
  "ReadDB L s =
     (let m = receiver s in
      case validateDatabase m of
        Some err \<Rightarrow> (Inl err, s)
      | None \<Rightarrow>
          (let headers = [(''key'', Key m), (''database'', Database m)]
           in case makeRequest L ''GET'' ''read-db'' headers GoNil s of
                (Inl err, s') \<Rightarrow> (Inl err, s')
              | (Inr resp, s') \<Rightarrow>
                  (case json_Decode_map L (Body resp) of
                     (Inl err, rest) \<Rightarrow> (Inl (DecodeError err), s')
                   | (Inr result, rest) \<Rightarrow> (Inr result, s'))))"

text \<open>
  The methods that return the response body as a string.
\<close>

definition CreateDB :: "library \<Rightarrow> state \<Rightarrow> (error + string) \<times> state" where
  "CreateDB L s =
     (let m = receiver s in
      case validateDatabase m of
        Some err \<Rightarrow> (Inl err, s)
      | None \<Rightarrow>
          (let headers = [(''key'', Key m), (''database'', Database m)]
           in case makeRequest L ''POST'' ''create-db'' headers GoNil s of
                (Inl err, s') \<Rightarrow> (Inl err, s')
              | (Inr resp, s') \<Rightarrow>
                  (case io_ReadAll (Body resp) of
                     (body, Some err) \<Rightarrow> (Inl (ReadError err), s')
                   | (body, None) \<Rightarrow> (Inr body, s'))))"

definition DeleteDB :: "library \<Rightarrow> state \<Rightarrow> (error + string) \<times> state" where
  "DeleteDB L s =
     (let m = receiver s in
      case validateDatabase m of
        Some err \<Rightarrow> (Inl err, s)
      | None \<Rightarrow>
          (let headers = [(''key'', Key m), (''database'', Database m)]
           in case makeRequest L ''DELETE'' ''del-database'' headers GoNil s of
                (Inl err, s') \<Rightarrow> (Inl err, s')
              | (Inr resp, s') \<Rightarrow>
                  (case io_ReadAll (Body resp) of
                     (body, Some err) \<Rightarrow> (Inl (ReadError err), s')
                   | (body, None) \<Rightarrow> (Inr body, s'))))"

definition CheckDBExists :: "library \<Rightarrow> state \<Rightarrow> (error + string) \<times> state" where
  "CheckDBExists L s =
     (let m = receiver s in
      case validateDatabase m of
        Some err \<Rightarrow> (Inl err, s)
      | None \<Rightarrow>
          (let headers = [(''key'', Key m), (''database'', Database m)]
           in case makeRequest L ''GET'' ''check-db-exists'' headers GoNil s of
                (Inl err, s') \<Rightarrow> (Inl err, s')
              | (Inr resp, s') \<Rightarrow>
                  (case io_ReadAll (Body resp) of
                     (body, Some err) \<Rightarrow> (Inl (ReadError err), s')
                   | (body, None) \<Rightarrow> (Inr body, s'))))"

definition CreateTable :: "library \<Rightarrow> string \<Rightarrow> string list option \<Rightarrow> state \<Rightarrow> (error + string) \<times> state" where
  "CreateTable L table attributes s =
     (let m = receiver s in
      case validateDatabase m of
        Some err \<Rightarrow> (Inl err, s)
      | None \<Rightarrow>
          (let headers = [(''key'', Key m), (''database'', Database m), (''table'', table)];
               body = GoMap (Some [(''attributes'', GoStrings attributes)])
           in case makeRequest L ''POST'' ''create-table'' headers body s of
                (Inl err, s') \<Rightarrow> (Inl err, s')
              | (Inr resp, s') \<Rightarrow>
                  (case io_ReadAll (Body resp) of
                     (body, Some err) \<Rightarrow> (Inl (ReadError err), s')
                   | (body, None) \<Rightarrow> (Inr body, s'))))"

definition CheckTableExists :: "library \<Rightarrow> string \<Rightarrow> state \<Rightarrow> (error + string) \<times> state" where
  "CheckTableExists L table s =
     (let m = receiver s in
      case validateDatabase m of
        Some err \<Rightarrow> (Inl err, s)
      | None \<Rightarrow>
          (let headers = [(''key'', Key m), (''database'', Database m), (''table'', table)]
           in case makeRequest L ''GET'' ''check-table-exists'' headers GoNil s of
                (Inl err, s') \<Rightarrow> (Inl err, s')
              | (Inr resp, s') \<Rightarrow>
                  (case io_ReadAll (Body resp) of
                     (body, Some err) \<Rightarrow> (Inl (ReadError err), s')
                   | (body, None) \<Rightarrow> (Inr body, s'))))"

definition InsertIntoTable :: "library \<Rightarrow> string \<Rightarrow> go_value \<Rightarrow> state \<Rightarrow> (error + string) \<times> state" where
  "InsertIntoTable L table values s =
     (let m = receiver s in
      case validateDatabase m of
        Some err \<Rightarrow> (Inl err, s)
      | None \<Rightarrow>
          (let headers = [(''key'', Key m), (''database'', Database m), (''table'', table)];
               body = GoMap (Some [(''values'', values)])
           in case makeRequest L ''POST'' ''insert-into-table'' headers body s of
                (Inl err, s') \<Rightarrow> (Inl err, s')
              | (Inr resp, s') \<Rightarrow>
                  (case io_ReadAll (Body resp) of
                     (body, Some err) \<Rightarrow> (Inl (ReadError err), s')
                   | (body, None) \<Rightarrow> (Inr body, s'))))"

text \<open>
  The methods that decode the response into an \<^verbatim>\<open>interface{}\<close>; when the decoder
  fails they call \<^verbatim>\<open>io.ReadAll\<close> on the same body, which the decoder has read from.
\<close>

definition GetTable :: "library \<Rightarrow> string \<Rightarrow> state \<Rightarrow> (error + go_value) \<times> state" where
  "GetTable L table s =
     (let m = receiver s in
      case validateDatabase m of
        Some err \<Rightarrow> (Inl err, s)
      | None \<Rightarrow>
          (let headers = [(''key'', Key m), (''database'', Database m), (''table'', table)]
           in case makeRequest L ''GET'' ''get-table'' headers GoNil s of
                (Inl err, s') \<Rightarrow> (Inl err, s')
              | (Inr resp, s') \<Rightarrow>
                  (case json_Decode_any L (Body resp) of
                     (Inl err, rest) \<Rightarrow>
                       (case io_ReadAll rest of
                          (body, Some readErr) \<Rightarrow> (Inl (ReadError readErr), s')
                        | (body, None) \<Rightarrow> (Inr (GoString body), s'))
                   | (Inr result, rest) \<Rightarrow> (Inr result, s'))))"

definition SelectWhere :: "library \<Rightarrow> string \<Rightarrow> go_map \<Rightarrow> state \<Rightarrow> (error + go_value) \<times> state" where
  "SelectWhere L table conditions s =
     (let m = receiver s in
      case validateDatabase m of
        Some err \<Rightarrow> (Inl err, s)
      | None \<Rightarrow>
          (let headers = [(''key'', Key m), (''database'', Database m), (''table'', table)];
               body = GoMap (Some [(''conditions'', GoMap conditions)])
           in case makeRequest L ''GET'' ''select-where'' headers body s of
                (Inl err, s') \<Rightarrow> (Inl err, s')
              | (Inr resp, s') \<Rightarrow>
                  (case json_Decode_any L (Body resp) of
                     (Inl err, rest) \<Rightarrow>
                       (case io_ReadAll rest of
                          (body, Some readErr) \<Rightarrow> (Inl (ReadError readErr), s')
                        | (body, None) \<Rightarrow> (Inr (GoString body), s'))
                   | (Inr result, rest) \<Rightarrow> (Inr result, s'))))"

definition SelectColumns :: "library \<Rightarrow> string \<Rightarrow> string list option \<Rightarrow> state \<Rightarrow> (error + go_value) \<times> state" where
  "SelectColumns L table columns s =
     (let m = receiver s in
      case validateDatabase m of
        Some err \<Rightarrow> (Inl err, s)
      | None \<Rightarrow>
          (let headers = [(''key'', Key m), (''database'', Database m), (''table'', table)];
               body = GoMap (Some [(''columns'', GoStrings columns)])
           in case makeRequest L ''GET'' ''select-columns'' headers body s of
                (Inl err, s') \<Rightarrow> (Inl err, s')
              | (Inr resp, s') \<Rightarrow>
                  (case json_Decode_any L (Body resp) of
                     (Inl err, rest) \<Rightarrow>
                       (case io_ReadAll rest of
                          (body, Some readErr) \<Rightarrow> (Inl (ReadError readErr), s')
                        | (body, None) \<Rightarrow> (Inr (GoString body), s'))
                   | (Inr result, rest) \<Rightarrow> (Inr result, s'))))"

definition SelectColumnsWhere :: "library \<Rightarrow> string \<Rightarrow> string list option \<Rightarrow> go_map \<Rightarrow> state \<Rightarrow> (error + go_value) \<times> state" where
  "SelectColumnsWhere L table columns conditions s =
     (let m = receiver s in
      case validateDatabase m of
        Some err \<Rightarrow> (Inl err, s)
      | None \<Rightarrow>
          (let headers = [(''key'', Key m), (''database'', Database m), (''table'', table)];
               body = GoMap (Some [(''columns'', GoStrings columns), (''conditions'', GoMap conditions)])
           in case makeRequest L ''GET'' ''select-columns-where'' headers body s of
                (Inl err, s') \<Rightarrow> (Inl err, s')
              | (Inr resp, s') \<Rightarrow>
                  (case json_Decode_any L (Body resp) of
                     (Inl err, rest) \<Rightarrow>
                       (case io_ReadAll rest of
                          (body, Some readErr) \<Rightarrow> (Inl (ReadError readErr), s')
                        | (body, None) \<Rightarrow> (Inr (GoString body), s'))
                   | (Inr result, rest) \<Rightarrow> (Inr result, s'))))"

definition DeleteWhere :: "library \<Rightarrow> string \<Rightarrow> go_map \<Rightarrow> state \<Rightarrow> (error + go_value) \<times> state" where
  "DeleteWhere L table conditions s =
     (let m = receiver s in
      case validateDatabase m of
        Some err \<Rightarrow> (Inl err, s)
      | None \<Rightarrow>
          (let headers = [(''key'', Key m), (''database'', Database m), (''table'', table)];
               body = GoMap (Some [(''conditions'', GoMap conditions)])
           in case makeRequest L ''DELETE'' ''delete-where'' headers body s of
                (Inl err, s') \<Rightarrow> (Inl err, s')
              | (Inr resp, s') \<Rightarrow>
                  (case json_Decode_any L (Body resp) of
                     (Inl err, rest) \<Rightarrow>
                       (case io_ReadAll rest of
                          (body, Some readErr) \<Rightarrow> (Inl (ReadError readErr), s')
                        | (body, None) \<Rightarrow> (Inr (GoString body), s'))
                   | (Inr result, rest) \<Rightarrow> (Inr result, s'))))"

definition DeleteTable :: "library \<Rightarrow> string \<Rightarrow> state \<Rightarrow> (error + go_value) \<times> state" where
  "DeleteTable L table s =
     (let m = receiver s in
      case validateDatabase m of
        Some err \<Rightarrow> (Inl err, s)
      | None \<Rightarrow>
          (let headers = [(''key'', Key m), (''database'', Database m), (''table'', table)]
           in case makeRequest L ''DELETE'' ''delete-table'' headers GoNil s of
                (Inl err, s') \<Rightarrow> (Inl err, s')
              | (Inr resp, s') \<Rightarrow>
                  (case json_Decode_any L (Body resp) of
                     (Inl err, rest) \<Rightarrow>
                       (case io_ReadAll rest of
                          (body, Some readErr) \<Rightarrow> (Inl (ReadError readErr), s')
                        | (body, None) \<Rightarrow> (Inr (GoString body), s'))
                   | (Inr result, rest) \<Rightarrow> (Inr result, s'))))"

definition UpdateWhere :: "library \<Rightarrow> string \<Rightarrow> go_map \<Rightarrow> go_map \<Rightarrow> state \<Rightarrow> (error + go_value) \<times> state" where
  "UpdateWhere L table conditions values s =
     (let m = receiver s in
      case validateDatabase m of
        Some err \<Rightarrow> (Inl err, s)
      | None \<Rightarrow>
          (let headers = [(''key'', Key m), (''database'', Database m), (''table'', table)];
               body = GoMap (Some [(''conditions'', GoMap conditions), (''values'', GoMap values)])
           in case makeRequest L ''POST'' ''update-table'' headers body s of
                (Inl err, s') \<Rightarrow> (Inl err, s')
              | (Inr resp, s') \<Rightarrow>
                  (case json_Decode_any L (Body resp) of
                     (Inl err, rest) \<Rightarrow>
                       (case io_ReadAll rest of
                          (body, Some readErr) \<Rightarrow> (Inl (ReadError readErr), s')
                        | (body, None) \<Rightarrow> (Inr (GoString body), s'))
                   | (Inr result, rest) \<Rightarrow> (Inr result, s'))))"

definition GetDatabases :: "library \<Rightarrow> state \<Rightarrow> (error + go_value) \<times> state" where
  "GetDatabases L s =
     (let m = receiver s;
          headers = [(''key'', Key m)]
      in case makeRequest L ''GET'' ''get-databases'' headers GoNil s of
           (Inl err, s') \<Rightarrow> (Inl err, s')
         | (Inr resp, s') \<Rightarrow>
             (case json_Decode_any L (Body resp) of
                (Inl err, rest) \<Rightarrow>
                  (case io_ReadAll rest of
                     (body, Some readErr) \<Rightarrow> (Inl (ReadError readErr), s')
                   | (body, None) \<Rightarrow> (Inr (GoString body), s'))
              | (Inr result, rest) \<Rightarrow> (Inr result, s')))"

definition String :: "state \<Rightarrow> string \<times> state" where
  "String s = (let m = receiver s in (Database m, s))"

section \<open>Calls\<close>

text \<open>
  A call of one of the fifteen methods that talk to the service, with its arguments, and
  \<open>run\<close>, which performs it. The three result types are returned as Go values: a map as
  \<open>GoMap\<close>, a string as \<open>GoString\<close>.
\<close>

datatype call =
    Call_ReadDB
  | Call_CreateDB
  | Call_DeleteDB
  | Call_CheckDBExists
  | Call_CreateTable string "string list option"
  | Call_CheckTableExists string
  | Call_InsertIntoTable string go_value
  | Call_GetTable string
  | Call_SelectWhere string go_map
  | Call_SelectColumns string "string list option"
  | Call_SelectColumnsWhere string "string list option" go_map
  | Call_DeleteWhere string go_map
  | Call_DeleteTable string
  | Call_UpdateWhere string go_map go_map
  | Call_GetDatabases

definition returning :: "('a \<Rightarrow> go_value) \<Rightarrow> (error + 'a) \<times> state \<Rightarrow> (error + go_value) \<times> state" where
  "returning f r = (case r of (Inl err, s') \<Rightarrow> (Inl err, s') | (Inr v, s') \<Rightarrow> (Inr (f v), s'))"

fun run :: "library \<Rightarrow> call \<Rightarrow> state \<Rightarrow> (error + go_value) \<times> state" where
  "run L Call_ReadDB s = returning GoMap (ReadDB L s)"
| "run L Call_CreateDB s = returning GoString (CreateDB L s)"
| "run L Call_DeleteDB s = returning GoString (DeleteDB L s)"
| "run L Call_CheckDBExists s = returning GoString (CheckDBExists L s)"
| "run L (Call_CreateTable table attributes) s =
     returning GoString (CreateTable L table attributes s)"
| "run L (Call_CheckTableExists table) s = returning GoString (CheckTableExists L table s)"
| "run L (Call_InsertIntoTable table values) s =
     returning GoString (InsertIntoTable L table values s)"
| "run L (Call_GetTable table) s = GetTable L table s"
| "run L (Call_SelectWhere table conditions) s = SelectWhere L table conditions s"
| "run L (Call_SelectColumns table columns) s = SelectColumns L table columns s"
| "run L (Call_SelectColumnsWhere table columns conditions) s =
     SelectColumnsWhere L table columns conditions s"
| "run L (Call_DeleteWhere table conditions) s = DeleteWhere L table conditions s"
| "run L (Call_DeleteTable table) s = DeleteTable L table s"
| "run L (Call_UpdateWhere table conditions values) s =
     UpdateWhere L table conditions values s"
| "run L Call_GetDatabases s = GetDatabases L s"

text \<open>The requests a call performs: those it adds to the ones sent before.\<close>

definition performed :: "library \<Rightarrow> call \<Rightarrow> state \<Rightarrow> request list" where
  "performed L c s = drop (length (sent s)) (sent (snd (run L c s)))"

section \<open>The template of the specification\<close>

text \<open>
  The specification describes every operation by one template: validate that a database
  name is configured, assemble headers, optionally marshal a body, perform one HTTP call,
  return decoded JSON or a raw string. The definitions of this section follow those words
  and the endpoint, header and body tables of the specification; they are compared with
  the functions above, which follow the source.
\<close>

fun spec_endpoint :: "call \<Rightarrow> string" where
  "spec_endpoint Call_ReadDB = ''read-db''"
| "spec_endpoint Call_CreateDB = ''create-db''"
| "spec_endpoint Call_DeleteDB = ''del-database''"
| "spec_endpoint Call_CheckDBExists = ''check-db-exists''"
| "spec_endpoint (Call_CreateTable table attributes) = ''create-table''"
| "spec_endpoint (Call_CheckTableExists table) = ''check-table-exists''"
| "spec_endpoint (Call_InsertIntoTable table values) = ''insert-into-table''"
| "spec_endpoint (Call_GetTable table) = ''get-table''"
| "spec_endpoint (Call_SelectWhere table conditions) = ''select-where''"
| "spec_endpoint (Call_SelectColumns table columns) = ''select-columns''"
| "spec_endpoint (Call_SelectColumnsWhere table columns conditions) = ''select-columns-where''"
| "spec_endpoint (Call_DeleteWhere table conditions) = ''delete-where''"
| "spec_endpoint (Call_DeleteTable table) = ''delete-table''"
| "spec_endpoint (Call_UpdateWhere table conditions values) = ''update-table''"
| "spec_endpoint Call_GetDatabases = ''get-databases''"

text \<open>
  The specification names no HTTP methods; this table lists the method literal each
  source function passes to \<^verbatim>\<open>makeRequest\<close>.
\<close>

fun call_method :: "call \<Rightarrow> string" where
  "call_method Call_ReadDB = ''GET''"
| "call_method Call_CreateDB = ''POST''"
| "call_method Call_DeleteDB = ''DELETE''"
| "call_method Call_CheckDBExists = ''GET''"
| "call_method (Call_CreateTable table attributes) = ''POST''"
| "call_method (Call_CheckTableExists table) = ''GET''"
| "call_method (Call_InsertIntoTable table values) = ''POST''"
| "call_method (Call_GetTable table) = ''GET''"
| "call_method (Call_SelectWhere table conditions) = ''GET''"
| "call_method (Call_SelectColumns table columns) = ''GET''"
| "call_method (Call_SelectColumnsWhere table columns conditions) = ''GET''"
| "call_method (Call_DeleteWhere table conditions) = ''DELETE''"
| "call_method (Call_DeleteTable table) = ''DELETE''"
| "call_method (Call_UpdateWhere table conditions values) = ''POST''"
| "call_method Call_GetDatabases = ''GET''"

text \<open>Database-scoped operations: all but the listing of databases.\<close>

fun spec_database_scoped :: "call \<Rightarrow> bool" where
  "spec_database_scoped Call_GetDatabases = False"
| "spec_database_scoped c = True"

text \<open>The table argument of a table-scoped operation.\<close>

fun spec_table :: "call \<Rightarrow> string option" where
  "spec_table (Call_CreateTable table attributes) = Some table"
| "spec_table (Call_CheckTableExists table) = Some table"
| "spec_table (Call_InsertIntoTable table values) = Some table"
| "spec_table (Call_GetTable table) = Some table"
| "spec_table (Call_SelectWhere table conditions) = Some table"
| "spec_table (Call_SelectColumns table columns) = Some table"
| "spec_table (Call_SelectColumnsWhere table columns conditions) = Some table"
| "spec_table (Call_DeleteWhere table conditions) = Some table"
| "spec_table (Call_DeleteTable table) = Some table"
| "spec_table (Call_UpdateWhere table conditions values) = Some table"
| "spec_table c = None"

text \<open>The value whose JSON encoding is the request body, for the operations that have one.\<close>

fun spec_body :: "call \<Rightarrow> go_value option" where
  "spec_body (Call_CreateTable table attributes) =
     Some (GoMap (Some [(''attributes'', GoStrings attributes)]))"
| "spec_body (Call_InsertIntoTable table values) = Some (GoMap (Some [(''values'', values)]))"
| "spec_body (Call_SelectWhere table conditions) =
     Some (GoMap (Some [(''conditions'', GoMap conditions)]))"
| "spec_body (Call_DeleteWhere table conditions) =
     Some (GoMap (Some [(''conditions'', GoMap conditions)]))"
| "spec_body (Call_SelectColumns table columns) =
     Some (GoMap (Some [(''columns'', GoStrings columns)]))"
| "spec_body (Call_SelectColumnsWhere table columns conditions) =
     Some (GoMap (Some [(''columns'', GoStrings columns), (''conditions'', GoMap conditions)]))"
| "spec_body (Call_UpdateWhere table conditions values) =
     Some (GoMap (Some [(''conditions'', GoMap conditions), (''values'', GoMap values)]))"
| "spec_body c = None"

definition spec_headers :: "call \<Rightarrow> MenousDB \<Rightarrow> (string \<rightharpoonup> string)" where
  "spec_headers c m =
     (\<lambda>k. if k = ''Content-Type'' then Some ''application/json''
          else if k = ''key'' then Some (Key m)
          else if k = ''database'' \<and> spec_database_scoped c then Some (Database m)
          else if k = ''table'' then spec_table c
          else None)"

definition spec_wire_body :: "library \<Rightarrow> call \<Rightarrow> string option" where
  "spec_wire_body L c =
     (case spec_body c of
        None \<Rightarrow> None
      | Some v \<Rightarrow> (case json_Marshal L v of Inl e \<Rightarrow> None | Inr b \<Rightarrow> Some b))"

definition spec_request :: "library \<Rightarrow> call \<Rightarrow> MenousDB \<Rightarrow> request" where
  "spec_request L c m =
     \<lparr>req_method = call_method c, req_url = URL m @ spec_endpoint c,
      req_header = spec_headers c m, req_body = spec_wire_body L c\<rparr>"

text \<open>
  What stops a call before any request is made: the missing database name, a body that
  does not marshal, a request that cannot be constructed, in the order of the source.
\<close>

definition marshal_failure :: "library \<Rightarrow> call \<Rightarrow> string option" where
  "marshal_failure L c =
     (case spec_body c of
        None \<Rightarrow> None
      | Some v \<Rightarrow> (case json_Marshal L v of Inl e \<Rightarrow> Some e | Inr b \<Rightarrow> None))"

definition blocked :: "library \<Rightarrow> call \<Rightarrow> MenousDB \<Rightarrow> error option" where
  "blocked L c m =
     (if spec_database_scoped c \<and> Database m = [] then Some (Errorf ''no database specified'')
      else case marshal_failure L c of
             Some e \<Rightarrow> Some (MarshalError e)
           | None \<Rightarrow>
               (case NewRequest_error L (call_method c) (URL m @ spec_endpoint c) of
                  Some e \<Rightarrow> Some (NewRequestError e)
                | None \<Rightarrow> None))"

text \<open>
  How the response becomes the result: \<^verbatim>\<open>ReadDB\<close> decodes a map, six operations return
  the body as text, eight decode any value and read the body as text when that fails.
\<close>

datatype reply = DecodedMap | RawText | DecodedOrText

fun reply_of :: "call \<Rightarrow> reply" where
  "reply_of Call_ReadDB = DecodedMap"
| "reply_of Call_CreateDB = RawText"
| "reply_of Call_DeleteDB = RawText"
| "reply_of Call_CheckDBExists = RawText"
| "reply_of (Call_CreateTable table attributes) = RawText"
| "reply_of (Call_CheckTableExists table) = RawText"
| "reply_of (Call_InsertIntoTable table values) = RawText"
| "reply_of (Call_GetTable table) = DecodedOrText"
| "reply_of (Call_SelectWhere table conditions) = DecodedOrText"
| "reply_of (Call_SelectColumns table columns) = DecodedOrText"
| "reply_of (Call_SelectColumnsWhere table columns conditions) = DecodedOrText"
| "reply_of (Call_DeleteWhere table conditions) = DecodedOrText"
| "reply_of (Call_DeleteTable table) = DecodedOrText"
| "reply_of (Call_UpdateWhere table conditions values) = DecodedOrText"
| "reply_of Call_GetDatabases = DecodedOrText"

definition read_text :: "reader \<Rightarrow> error + go_value" where
  "read_text r =
     (case io_ReadAll r of
        (body, Some readErr) \<Rightarrow> Inl (ReadError readErr)
      | (body, None) \<Rightarrow> Inr (GoString body))"

fun reply_result :: "library \<Rightarrow> reply \<Rightarrow> response \<Rightarrow> error + go_value" where
  "reply_result L DecodedMap resp =
     (case json_Decode_map L (Body resp) of
        (Inl err, rest) \<Rightarrow> Inl (DecodeError err)
      | (Inr result, rest) \<Rightarrow> Inr (GoMap result))"
| "reply_result L RawText resp = read_text (Body resp)"
| "reply_result L DecodedOrText resp =
     (case json_Decode_any L (Body resp) of
        (Inl err, rest) \<Rightarrow> read_text rest
      | (Inr result, rest) \<Rightarrow> Inr result)"

definition template :: "library \<Rightarrow> call \<Rightarrow> state \<Rightarrow> (error + go_value) \<times> state" where
  "template L c s =
     (case blocked L c (receiver s) of
        Some err \<Rightarrow> (Inl err, s)
      | None \<Rightarrow>
          (let req = spec_request L c (receiver s)
           in (case client_Do L (sent s) req of
                 Inl e \<Rightarrow> Inl (DoError e)
               | Inr resp \<Rightarrow> reply_result L (reply_of c) resp,
               s\<lparr>sent := sent s @ [req]\<rparr>)))"

text \<open>
  The request \<^verbatim>\<open>makeRequest\<close> hands to \<^verbatim>\<open>client.Do\<close>, written out.
\<close>

definition sent_request ::
  "library \<Rightarrow> string \<Rightarrow> string \<Rightarrow> (string \<times> string) list \<Rightarrow> go_value \<Rightarrow> MenousDB
     \<Rightarrow> request" where
  "sent_request L method endpoint headers body m =
     \<lparr>req_method = method, req_url = URL m @ endpoint,
      req_header =
        fold (\<lambda>(k, v) h. h(k \<mapsto> v)) headers [''Content-Type'' \<mapsto> ''application/json''],
      req_body =
        (if body \<noteq> GoNil
         then (case json_Marshal L body of Inl e \<Rightarrow> None | Inr b \<Rightarrow> Some b)
         else None)\<rparr>"

text \<open>The claim's reading of a URL that ends with a slash.\<close>

definition spec_ends_with_slash :: "string \<Rightarrow> bool" where
  "spec_ends_with_slash u = (u \<noteq> [] \<and> last u = CHR ''/'')"

section \<open>A sample service\<close>

text \<open>
  A library and a service to run the client against. The sample encoder writes strings
  without escapes and map entries in the order given, and has no encoding for an opaque
  value; a URL with a space in it is refused; the service answers every request with a
  two-block body that is not JSON, and the decoder fails after reading the first block.
\<close>

definition quoted :: "string \<Rightarrow> string" where
  "quoted s = CHR 0x22 # s @ [CHR 0x22]"

fun commas :: "string list \<Rightarrow> string" where
  "commas [] = []"
| "commas [x] = x"
| "commas (x # y # ys) = x @ '','' @ commas (y # ys)"

fun sample_json :: "go_value \<Rightarrow> string option" where
  "sample_json GoNil = Some ''null''"
| "sample_json (GoBool b) = Some (if b then ''true'' else ''false'')"
| "sample_json (GoString s) = Some (quoted s)"
| "sample_json (GoStrings None) = Some ''null''"
| "sample_json (GoStrings (Some xs)) = Some (''['' @ commas (map quoted xs) @ '']'')"
| "sample_json (GoSlice vs) =
     map_option (\<lambda>js. ''['' @ commas js @ '']'') (those (map sample_json vs))"
| "sample_json (GoMap None) = Some ''null''"
| "sample_json (GoMap (Some kvs)) =
     map_option (\<lambda>js. ''{'' @ commas js @ ''}'')
       (those (map (\<lambda>(k, v). map_option (\<lambda>j. quoted k @ '':'' @ j) (sample_json v)) kvs))"
| "sample_json (GoOther n) = None"

definition sample_response :: response where
  "sample_response = \<lparr>StatusCode = 404, Body = [Data ''no such'', Data '' table'']\<rparr>"

definition sample_library :: library where
  "sample_library =
     \<lparr>json_Marshal =
        (\<lambda>v. case sample_json v of
               None \<Rightarrow> Inl ''json: unsupported type''
             | Some j \<Rightarrow> Inr j),
      NewRequest_error =
        (\<lambda>method url. if CHR '' '' \<in> set url then Some ''invalid character in URL'' else None),
      client_Do = (\<lambda>sent req. Inr sample_response),
      json_Decode_map = (\<lambda>r. (Inl ''invalid character'', drop 1 r)),
      json_Decode_any = (\<lambda>r. (Inl ''invalid character'', drop 1 r))\<rparr>"

text \<open>
  The same library with a service that answers with an empty body: the decoder meets the
  end of the body at once and has read nothing of it.
\<close>

definition silent_library :: library where
  "silent_library =
     sample_library
       \<lparr>client_Do := (\<lambda>sent req. Inr \<lparr>StatusCode = 200, Body = []\<rparr>),
        json_Decode_map := (\<lambda>r. (Inl ''EOF'', r)),
        json_Decode_any := (\<lambda>r. (Inl ''EOF'', r))\<rparr>"

definition sample_state :: state where
  "sample_state =
     \<lparr>receiver = NewMenousDB ''http://localhost:5555'' ''secret'' ''shop'', sent = []\<rparr>"

definition unnamed_state :: state where
  "unnamed_state =
     \<lparr>receiver = NewMenousDB ''http://localhost:5555/'' ''secret'' [], sent = []\<rparr>"

section \<open>The source functions follow the template\<close>

lemma fold_Header_Set:
  "fold (\<lambda>(k, v). Header_Set k v) headers req =
     req\<lparr>req_header := fold (\<lambda>(k, v) h. h(k \<mapsto> v)) headers (req_header req)\<rparr>"
  by (induction headers arbitrary: req) (auto simp: Header_Set_def)

lemma makeRequest_unfold:
  "makeRequest L method endpoint headers body s =
     (case (if body \<noteq> GoNil
            then (case json_Marshal L body of Inl e \<Rightarrow> Some e | Inr b \<Rightarrow> None)
            else None) of
        Some e \<Rightarrow> (Inl (MarshalError e), s)
      | None \<Rightarrow>
          (case NewRequest_error L method (URL (receiver s) @ endpoint) of
             Some e \<Rightarrow> (Inl (NewRequestError e), s)
           | None \<Rightarrow> Do L (sent_request L method endpoint headers body (receiver s)) s))"
  by (simp add: makeRequest_def http_NewRequest_def fold_Header_Set Header_Set_def
      sent_request_def Let_def split: sum.splits option.splits)

lemma request_database:
  "spec_database_scoped c \<Longrightarrow> spec_table c = None \<Longrightarrow> spec_body c = None \<Longrightarrow>
   sent_request L (call_method c) (spec_endpoint c)
     [(''key'', Key m), (''database'', Database m)] GoNil m = spec_request L c m"
  by (simp add: sent_request_def spec_request_def spec_headers_def spec_wire_body_def
      fun_eq_iff)

lemma request_table:
  "spec_database_scoped c \<Longrightarrow> spec_table c = Some t \<Longrightarrow> spec_body c = None \<Longrightarrow>
   sent_request L (call_method c) (spec_endpoint c)
     [(''key'', Key m), (''database'', Database m), (''table'', t)] GoNil m = spec_request L c m"
  by (simp add: sent_request_def spec_request_def spec_headers_def spec_wire_body_def
      fun_eq_iff)

lemma request_table_body:
  "spec_database_scoped c \<Longrightarrow> spec_table c = Some t \<Longrightarrow> spec_body c = Some (GoMap b) \<Longrightarrow>
   sent_request L (call_method c) (spec_endpoint c)
     [(''key'', Key m), (''database'', Database m), (''table'', t)] (GoMap b) m
   = spec_request L c m"
  by (simp add: sent_request_def spec_request_def spec_headers_def spec_wire_body_def
      fun_eq_iff)

lemma request_key:
  "sent_request L ''GET'' ''get-databases'' [(''key'', Key m)] GoNil m
   = spec_request L Call_GetDatabases m"
  by (simp add: sent_request_def spec_request_def spec_headers_def spec_wire_body_def
      fun_eq_iff)

lemmas template_unfold =
  template_def blocked_def marshal_failure_def validateDatabase_def makeRequest_unfold
  Do_def returning_def read_text_def Let_def

lemma run_ReadDB: "run L Call_ReadDB s = template L Call_ReadDB s"
  using request_database [of Call_ReadDB L "receiver s"]
  by (simp add: ReadDB_def template_unfold split: sum.splits option.splits prod.splits)

lemma run_CreateDB: "run L Call_CreateDB s = template L Call_CreateDB s"
  using request_database [of Call_CreateDB L "receiver s"]
  by (simp add: CreateDB_def template_unfold split: sum.splits option.splits prod.splits)

lemma run_DeleteDB: "run L Call_DeleteDB s = template L Call_DeleteDB s"
  using request_database [of Call_DeleteDB L "receiver s"]
  by (simp add: DeleteDB_def template_unfold split: sum.splits option.splits prod.splits)

lemma run_CheckDBExists: "run L Call_CheckDBExists s = template L Call_CheckDBExists s"
  using request_database [of Call_CheckDBExists L "receiver s"]
  by (simp add: CheckDBExists_def template_unfold split: sum.splits option.splits prod.splits)

lemma run_CreateTable:
  "run L (Call_CreateTable t a) s = template L (Call_CreateTable t a) s"
  using request_table_body [of "Call_CreateTable t a" t _ L "receiver s"]
  by (simp add: CreateTable_def template_unfold split: sum.splits option.splits prod.splits)

lemma run_CheckTableExists:
  "run L (Call_CheckTableExists t) s = template L (Call_CheckTableExists t) s"
  using request_table [of "Call_CheckTableExists t" t L "receiver s"]
  by (simp add: CheckTableExists_def template_unfold
      split: sum.splits option.splits prod.splits)

lemma run_InsertIntoTable:
  "run L (Call_InsertIntoTable t v) s = template L (Call_InsertIntoTable t v) s"
  using request_table_body [of "Call_InsertIntoTable t v" t _ L "receiver s"]
  by (simp add: InsertIntoTable_def template_unfold
      split: sum.splits option.splits prod.splits)

lemma run_GetTable: "run L (Call_GetTable t) s = template L (Call_GetTable t) s"
  using request_table [of "Call_GetTable t" t L "receiver s"]
  by (simp add: GetTable_def template_unfold split: sum.splits option.splits prod.splits)

lemma run_SelectWhere:
  "run L (Call_SelectWhere t w) s = template L (Call_SelectWhere t w) s"
  using request_table_body [of "Call_SelectWhere t w" t _ L "receiver s"]
  by (simp add: SelectWhere_def template_unfold split: sum.splits option.splits prod.splits)

lemma run_SelectColumns:
  "run L (Call_SelectColumns t cs) s = template L (Call_SelectColumns t cs) s"
  using request_table_body [of "Call_SelectColumns t cs" t _ L "receiver s"]
  by (simp add: SelectColumns_def template_unfold split: sum.splits option.splits prod.splits)

lemma run_SelectColumnsWhere:
  "run L (Call_SelectColumnsWhere t cs w) s = template L (Call_SelectColumnsWhere t cs w) s"
  using request_table_body [of "Call_SelectColumnsWhere t cs w" t _ L "receiver s"]
  by (simp add: SelectColumnsWhere_def template_unfold
      split: sum.splits option.splits prod.splits)

lemma run_DeleteWhere:
  "run L (Call_DeleteWhere t w) s = template L (Call_DeleteWhere t w) s"
  using request_table_body [of "Call_DeleteWhere t w" t _ L "receiver s"]
  by (simp add: DeleteWhere_def template_unfold split: sum.splits option.splits prod.splits)

lemma run_DeleteTable: "run L (Call_DeleteTable t) s = template L (Call_DeleteTable t) s"
  using request_table [of "Call_DeleteTable t" t L "receiver s"]
  by (simp add: DeleteTable_def template_unfold split: sum.splits option.splits prod.splits)

lemma run_UpdateWhere:
  "run L (Call_UpdateWhere t w v) s = template L (Call_UpdateWhere t w v) s"
  using request_table_body [of "Call_UpdateWhere t w v" t _ L "receiver s"]
  by (simp add: UpdateWhere_def template_unfold split: sum.splits option.splits prod.splits)

lemma run_GetDatabases: "run L Call_GetDatabases s = template L Call_GetDatabases s"
  using request_key [of L "receiver s"]
  by (simp add: GetDatabases_def template_unfold split: sum.splits option.splits prod.splits)

lemma run_template: "run L c s = template L c s"
  by (cases c)
    (simp_all only: run_ReadDB run_CreateDB run_DeleteDB run_CheckDBExists run_CreateTable
      run_CheckTableExists run_InsertIntoTable run_GetTable run_SelectWhere run_SelectColumns
      run_SelectColumnsWhere run_DeleteWhere run_DeleteTable run_UpdateWhere run_GetDatabases)

lemma performed_template:
  "performed L c s =
     (case blocked L c (receiver s) of
        Some err \<Rightarrow> []
      | None \<Rightarrow> [spec_request L c (receiver s)])"
  by (simp add: performed_def run_template template_def Let_def split: option.splits)

lemma receiver_run: "receiver (snd (run L c s)) = receiver s"
  by (simp add: run_template template_def Let_def split: option.splits)

lemma HasSuffix_slash: "HasSuffix u ''/'' = spec_ends_with_slash u"
  by (cases u rule: rev_cases) (simp_all add: HasSuffix_def spec_ends_with_slash_def)

lemma reply_DecodedMap: "reply_of c = DecodedMap \<Longrightarrow> c = Call_ReadDB"
  by (cases c) simp_all

lemmas sample_blocked =
  blocked_def marshal_failure_def sample_library_def sample_state_def NewMenousDB_def
  HasSuffix_def quoted_def

lemma sample_receiver:
  "receiver sample_state
     = \<lparr>URL = ''http://localhost:5555/'', Key = ''secret'', Database = ''shop''\<rparr>"
  by (simp add: sample_state_def NewMenousDB_def HasSuffix_def)

section \<open>The claims\<close>

text \<open>
  Claim C1, as the code has it. For GetTable, SelectWhere, SelectColumns,
  SelectColumnsWhere, DeleteWhere, DeleteTable, UpdateWhere and GetDatabases, when the
  request of the call was answered and decoding the answer fails, the decoding failure is
  not returned: the result is a text with a nil error when the body can then be read, and
  the failure of that read otherwise; the text is the whole response body when the decoder
  has read none of it. ReadDB, whose result is a map, returns the decoding failure as its
  error.
\<close>

theorem decode_failure_fallback:
  "blocked L c (receiver s) = None \<Longrightarrow>
   client_Do L (sent s) (spec_request L c (receiver s)) = Inr resp \<Longrightarrow>
   (reply_of c = DecodedOrText \<longrightarrow>
      (\<forall>e rest. json_Decode_any L (Body resp) = (Inl e, rest) \<longrightarrow>
         (case snd (io_ReadAll rest) of
            None \<Rightarrow> (\<exists>text. fst (run L c s) = Inr (GoString text))
          | Some readErr \<Rightarrow> fst (run L c s) = Inl (ReadError readErr)) \<and>
         (rest = Body resp \<and> snd (io_ReadAll rest) = None \<longrightarrow>
            fst (run L c s) = Inr (GoString (fst (io_ReadAll (Body resp))))))) \<and>
   (c = Call_ReadDB \<longrightarrow>
      (\<forall>e rest. json_Decode_map L (Body resp) = (Inl e, rest) \<longrightarrow>
         fst (run L c s) = Inl (DecodeError e)))"
proof (intro conjI impI allI)
  fix e rest
  assume b: "blocked L c (receiver s) = None"
    and d: "client_Do L (sent s) (spec_request L c (receiver s)) = Inr resp"
  {
    assume k: "reply_of c = DecodedOrText"
      and j: "json_Decode_any L (Body resp) = (Inl e, rest)"
    from b d k j have r: "fst (run L c s) = read_text rest"
      by (simp add: run_template template_def Let_def)
    show "case snd (io_ReadAll rest) of
            None \<Rightarrow> \<exists>text. fst (run L c s) = Inr (GoString text)
          | Some readErr \<Rightarrow> fst (run L c s) = Inl (ReadError readErr)"
      by (cases "io_ReadAll rest") (auto simp: r read_text_def split: option.splits)
    assume "rest = Body resp \<and> snd (io_ReadAll rest) = None"
    then show "fst (run L c s) = Inr (GoString (fst (io_ReadAll (Body resp))))"
      by (cases "io_ReadAll rest") (auto simp: r read_text_def)
  next
    assume k: "c = Call_ReadDB"
      and j: "json_Decode_map L (Body resp) = (Inl e, rest)"
    from b d k j show "fst (run L c s) = Inl (DecodeError e)"
      by (simp add: run_template template_def Let_def)
  }
qed

text \<open>
  The theorem at the service that answers with an empty body, of which the decoder has
  read nothing: GetTable returns the empty body as text, ReadDB the decoding failure. At
  the sample service, where the decoder has read a block, GetTable returns no error.
\<close>

theorem decode_failure_fallback_witness:
  "fst (run silent_library (Call_GetTable ''items'') sample_state) = Inr (GoString []) \<and>
   fst (run silent_library Call_ReadDB sample_state) = Inl (DecodeError ''EOF'') \<and>
   \<not> isl (fst (run sample_library (Call_GetTable ''items'') sample_state))"
proof -
  let ?m = "receiver sample_state"
  let ?g = "Call_GetTable ''items''"
  let ?none = "\<lparr>StatusCode = 200, Body = []\<rparr>"
  have b1: "blocked silent_library ?g ?m = None"
    by (simp add: blocked_def marshal_failure_def silent_library_def sample_library_def
        sample_state_def NewMenousDB_def HasSuffix_def)
  have b2: "blocked silent_library Call_ReadDB ?m = None"
    by (simp add: blocked_def marshal_failure_def silent_library_def sample_library_def
        sample_state_def NewMenousDB_def HasSuffix_def)
  have b3: "blocked sample_library ?g ?m = None"
    by (simp add: blocked_def marshal_failure_def sample_library_def
        sample_state_def NewMenousDB_def HasSuffix_def)
  have d1: "client_Do silent_library (sent sample_state) (spec_request silent_library ?g ?m)
      = Inr ?none"
    by (simp add: silent_library_def)
  have d2: "client_Do silent_library (sent sample_state)
      (spec_request silent_library Call_ReadDB ?m) = Inr ?none"
    by (simp add: silent_library_def)
  have d3: "client_Do sample_library (sent sample_state) (spec_request sample_library ?g ?m)
      = Inr sample_response"
    by (simp add: sample_library_def)
  have a: "json_Decode_any silent_library (Body ?none) = (Inl ''EOF'', Body ?none)"
    by (simp add: silent_library_def)
  have m: "json_Decode_map silent_library (Body ?none) = (Inl ''EOF'', Body ?none)"
    by (simp add: silent_library_def)
  have c: "json_Decode_any sample_library (Body sample_response)
      = (Inl ''invalid character'', [Data '' table''])"
    by (simp add: sample_library_def sample_response_def)
  from decode_failure_fallback [OF b1 d1] a
  have g1: "fst (run silent_library ?g sample_state) = Inr (GoString [])" by simp
  from decode_failure_fallback [OF b2 d2] m
  have g2: "fst (run silent_library Call_ReadDB sample_state) = Inl (DecodeError ''EOF'')"
    by simp
  from decode_failure_fallback [OF b3 d3] c
  have g3: "\<not> isl (fst (run sample_library ?g sample_state))" by auto
  from g1 g2 g3 show ?thesis by simp
qed

text \<open>
  Claim C1 as stated fails for ReadDB: the answer of the sample service does not decode,
  reading the rest of its body would succeed, and ReadDB returns the decoding failure.
\<close>

theorem ReadDB_no_text_fallback:
  "json_Decode_map sample_library (Body sample_response)
     = (Inl ''invalid character'', [Data '' table'']) \<and>
   io_ReadAll [Data '' table''] = ('' table'', None) \<and>
   ReadDB sample_library sample_state
     = (Inl (DecodeError ''invalid character''),
        sample_state\<lparr>sent := [spec_request sample_library Call_ReadDB (receiver sample_state)]\<rparr>)"
  using run_ReadDB [of sample_library sample_state]
  apply (simp add: template_def blocked_def marshal_failure_def sample_library_def
      sample_state_def NewMenousDB_def HasSuffix_def Let_def sample_response_def returning_def split: prod.splits sum.splits)
  done

text \<open>
  Claim C2, as the code has it. With an empty Database field, every database-scoped
  operation (every operation but GetDatabases) returns the error
  \<^verbatim>\<open>no database specified\<close>, leaves the state as it was and performs no request.
\<close>

theorem no_database_no_request:
  "Database (receiver s) = [] \<Longrightarrow> spec_database_scoped c \<Longrightarrow>
   run L c s = (Inl (Errorf ''no database specified''), s) \<and> performed L c s = []"
  by (simp add: performed_template run_template template_def blocked_def)

theorem no_database_no_request_witness:
  "run sample_library (Call_GetTable ''items'') unnamed_state
     = (Inl (Errorf ''no database specified''), unnamed_state) \<and>
   performed sample_library (Call_GetTable ''items'') unnamed_state = []"
proof -
  have d: "Database (receiver unnamed_state) = []"
    by (simp add: unnamed_state_def NewMenousDB_def)
  have t: "spec_database_scoped (Call_GetTable ''items'')" by simp
  from no_database_no_request [OF d t] show ?thesis .
qed

text \<open>
  Claim C2 as stated fails for GetDatabases, which does not validate: with an empty
  Database field it performs its request and returns what the service answered.
\<close>

theorem GetDatabases_without_database:
  "Database (receiver unnamed_state) = [] \<and>
   fst (run sample_library Call_GetDatabases unnamed_state) = Inr (GoString '' table'') \<and>
   performed sample_library Call_GetDatabases unnamed_state
     = [spec_request sample_library Call_GetDatabases (receiver unnamed_state)]"
  by (simp add: performed_template run_template template_def blocked_def marshal_failure_def sample_library_def
      unnamed_state_def NewMenousDB_def HasSuffix_def Let_def sample_response_def read_text_def)

text \<open>
  Claim C3, as the code has it. An error returned by an operation is exactly one of:
  the missing database name; the failure to marshal the request body; the failure to
  construct the request; the failure of sending it; the failure of reading the response
  body (directly, or after a decoding failure); and, for ReadDB only, the failure to decode
  the response. No other operation returns a decoding failure.
\<close>

theorem error_origins:
  "fst (run L c s) = Inl e \<Longrightarrow>
   (e = Errorf ''no database specified'' \<and> spec_database_scoped c \<and> Database (receiver s) = []) \<or>
   (\<exists>x. e = MarshalError x \<and> marshal_failure L c = Some x) \<or>
   (\<exists>x. e = NewRequestError x \<and>
        NewRequest_error L (call_method c) (URL (receiver s) @ spec_endpoint c) = Some x) \<or>
   (\<exists>x. e = DoError x \<and> client_Do L (sent s) (spec_request L c (receiver s)) = Inl x) \<or>
   (\<exists>x resp. e = ReadError x \<and>
        client_Do L (sent s) (spec_request L c (receiver s)) = Inr resp \<and>
        (reply_of c = RawText \<and> snd (io_ReadAll (Body resp)) = Some x \<or>
         reply_of c = DecodedOrText \<and>
         (\<exists>d rest. json_Decode_any L (Body resp) = (Inl d, rest) \<and>
            snd (io_ReadAll rest) = Some x))) \<or>
   (\<exists>x resp. e = DecodeError x \<and> c = Call_ReadDB \<and>
        client_Do L (sent s) (spec_request L c (receiver s)) = Inr resp \<and>
        fst (json_Decode_map L (Body resp)) = Inl x)"
proof -
  assume r: "fst (run L c s) = Inl e"
  show ?thesis
  proof (cases "blocked L c (receiver s)")
    case (Some err)
    with r have "e = err" by (simp add: run_template template_def)
    with Some show ?thesis
      by (auto simp: blocked_def split: if_splits option.splits)
  next
    case None
    show ?thesis
    proof (cases "client_Do L (sent s) (spec_request L c (receiver s))")
      case (Inl x)
      with r None show ?thesis by (simp add: run_template template_def Let_def)
    next
      case (Inr resp)
      with r None have rr: "reply_result L (reply_of c) resp = Inl e"
        by (simp add: run_template template_def Let_def)
      show ?thesis
      proof (cases "reply_of c")
        case DecodedMap
        with rr Inr reply_DecodedMap [of c] show ?thesis
          by (auto split: prod.splits sum.splits)
      next
        case RawText
        with rr Inr show ?thesis
          by (auto simp: read_text_def split: prod.splits option.splits)
      next
        case DecodedOrText
        with rr Inr show ?thesis
          by (auto simp: read_text_def split: prod.splits sum.splits option.splits)
      qed
    qed
  qed
qed

theorem error_origins_witness:
  "fst (run sample_library (Call_InsertIntoTable ''items'' (GoOther 0)) sample_state)
     = Inl (MarshalError ''json: unsupported type'') \<and>
   marshal_failure sample_library (Call_InsertIntoTable ''items'' (GoOther 0))
     = Some ''json: unsupported type''"
proof -
  have r: "fst (run sample_library (Call_InsertIntoTable ''items'' (GoOther 0)) sample_state)
     = Inl (MarshalError ''json: unsupported type'')"
    by (simp add: run_template template_def blocked_def marshal_failure_def sample_library_def
        sample_state_def NewMenousDB_def)
  from error_origins [OF r] r show ?thesis by simp
qed

text \<open>
  Claim C3 as stated fails for ReadDB: a response that does not decode makes it return
  the decoding failure.
\<close>

theorem ReadDB_decode_error:
  "fst (run sample_library Call_ReadDB sample_state) = Inl (DecodeError ''invalid character'')"
  by (simp add: run_template template_def blocked_def marshal_failure_def sample_library_def
      sample_state_def NewMenousDB_def HasSuffix_def Let_def)

text \<open>
  Claim C4. An operation that is not stopped before its request performs one request, to
  the client's URL followed by the operation's endpoint name, as the specification lists
  them; and no request it performs goes anywhere else.
\<close>

theorem request_endpoint:
  "(blocked L c (receiver s) = None \<longrightarrow>
      (\<exists>req. performed L c s = [req] \<and> req_url req = URL (receiver s) @ spec_endpoint c)) \<and>
   (\<forall>req \<in> set (performed L c s). req_url req = URL (receiver s) @ spec_endpoint c)"
  by (auto simp: performed_template spec_request_def split: option.splits)

text \<open>The theorem at the sample service, for each of the fifteen operations.\<close>

theorem request_endpoint_witness:
  "map req_url (performed sample_library Call_ReadDB sample_state)
     = [''http://localhost:5555/read-db''] \<and>
   map req_url (performed sample_library Call_CreateDB sample_state)
     = [''http://localhost:5555/create-db''] \<and>
   map req_url (performed sample_library Call_DeleteDB sample_state)
     = [''http://localhost:5555/del-database''] \<and>
   map req_url (performed sample_library Call_CheckDBExists sample_state)
     = [''http://localhost:5555/check-db-exists''] \<and>
   map req_url (performed sample_library (Call_CreateTable ''items'' (Some [''name'', ''price''])) sample_state)
     = [''http://localhost:5555/create-table''] \<and>
   map req_url (performed sample_library (Call_CheckTableExists ''items'') sample_state)
     = [''http://localhost:5555/check-table-exists''] \<and>
   map req_url (performed sample_library (Call_InsertIntoTable ''items'' (GoMap (Some [(''name'', GoString ''pen'')]))) sample_state)
     = [''http://localhost:5555/insert-into-table''] \<and>
   map req_url (performed sample_library (Call_GetTable ''items'') sample_state)
     = [''http://localhost:5555/get-table''] \<and>
   map req_url (performed sample_library (Call_SelectWhere ''items'' (Some [(''name'', GoString ''pen'')])) sample_state)
     = [''http://localhost:5555/select-where''] \<and>
   map req_url (performed sample_library (Call_SelectColumns ''items'' (Some [''name''])) sample_state)
     = [''http://localhost:5555/select-columns''] \<and>
   map req_url (performed sample_library (Call_SelectColumnsWhere ''items'' (Some [''price'']) (Some [(''name'', GoString ''pen'')])) sample_state)
     = [''http://localhost:5555/select-columns-where''] \<and>
   map req_url (performed sample_library (Call_DeleteWhere ''items'' None) sample_state)
     = [''http://localhost:5555/delete-where''] \<and>
   map req_url (performed sample_library (Call_DeleteTable ''items'') sample_state)
     = [''http://localhost:5555/delete-table''] \<and>
   map req_url (performed sample_library (Call_UpdateWhere ''items'' (Some [(''name'', GoString ''pen'')]) (Some [(''price'', GoString ''2'')])) sample_state)
     = [''http://localhost:5555/update-table''] \<and>
   map req_url (performed sample_library Call_GetDatabases sample_state)
     = [''http://localhost:5555/get-databases'']"
proof -
  have b1: "blocked sample_library Call_ReadDB (receiver sample_state) = None"
    by (simp add: sample_blocked)
  have b2: "blocked sample_library Call_CreateDB (receiver sample_state) = None"
    by (simp add: sample_blocked)
  have b3: "blocked sample_library Call_DeleteDB (receiver sample_state) = None"
    by (simp add: sample_blocked)
  have b4: "blocked sample_library Call_CheckDBExists (receiver sample_state) = None"
    by (simp add: sample_blocked)
  have b5: "blocked sample_library (Call_CreateTable ''items'' (Some [''name'', ''price''])) (receiver sample_state) = None"
    by (simp add: sample_blocked)
  have b6: "blocked sample_library (Call_CheckTableExists ''items'') (receiver sample_state) = None"
    by (simp add: sample_blocked)
  have b7: "blocked sample_library (Call_InsertIntoTable ''items'' (GoMap (Some [(''name'', GoString ''pen'')]))) (receiver sample_state) = None"
    by (simp add: sample_blocked)
  have b8: "blocked sample_library (Call_GetTable ''items'') (receiver sample_state) = None"
    by (simp add: sample_blocked)
  have b9: "blocked sample_library (Call_SelectWhere ''items'' (Some [(''name'', GoString ''pen'')])) (receiver sample_state) = None"
    by (simp add: sample_blocked)
  have b10: "blocked sample_library (Call_SelectColumns ''items'' (Some [''name''])) (receiver sample_state) = None"
    by (simp add: sample_blocked)
  have b11: "blocked sample_library (Call_SelectColumnsWhere ''items'' (Some [''price'']) (Some [(''name'', GoString ''pen'')])) (receiver sample_state) = None"
    by (simp add: sample_blocked)
  have b12: "blocked sample_library (Call_DeleteWhere ''items'' None) (receiver sample_state) = None"
    by (simp add: sample_blocked)
  have b13: "blocked sample_library (Call_DeleteTable ''items'') (receiver sample_state) = None"
    by (simp add: sample_blocked)
  have b14: "blocked sample_library (Call_UpdateWhere ''items'' (Some [(''name'', GoString ''pen'')]) (Some [(''price'', GoString ''2'')])) (receiver sample_state) = None"
    by (simp add: sample_blocked)
  have b15: "blocked sample_library Call_GetDatabases (receiver sample_state) = None"
    by (simp add: sample_blocked)
  from request_endpoint [of sample_library Call_ReadDB sample_state] b1
  have g1: "map req_url (performed sample_library Call_ReadDB sample_state)
     = [''http://localhost:5555/read-db'']"
    by (auto simp: sample_receiver)
  from request_endpoint [of sample_library Call_CreateDB sample_state] b2
  have g2: "map req_url (performed sample_library Call_CreateDB sample_state)
     = [''http://localhost:5555/create-db'']"
    by (auto simp: sample_receiver)
  from request_endpoint [of sample_library Call_DeleteDB sample_state] b3
  have g3: "map req_url (performed sample_library Call_DeleteDB sample_state)
     = [''http://localhost:5555/del-database'']"
    by (auto simp: sample_receiver)
  from request_endpoint [of sample_library Call_CheckDBExists sample_state] b4
  have g4: "map req_url (performed sample_library Call_CheckDBExists sample_state)
     = [''http://localhost:5555/check-db-exists'']"
    by (auto simp: sample_receiver)
  from request_endpoint [of sample_library "Call_CreateTable ''items'' (Some [''name'', ''price''])" sample_state] b5
  have g5: "map req_url (performed sample_library (Call_CreateTable ''items'' (Some [''name'', ''price''])) sample_state)
     = [''http://localhost:5555/create-table'']"
    by (auto simp: sample_receiver)
  from request_endpoint [of sample_library "Call_CheckTableExists ''items''" sample_state] b6
  have g6: "map req_url (performed sample_library (Call_CheckTableExists ''items'') sample_state)
     = [''http://localhost:5555/check-table-exists'']"
    by (auto simp: sample_receiver)
  from request_endpoint [of sample_library "Call_InsertIntoTable ''items'' (GoMap (Some [(''name'', GoString ''pen'')]))" sample_state] b7
  have g7: "map req_url (performed sample_library (Call_InsertIntoTable ''items'' (GoMap (Some [(''name'', GoString ''pen'')]))) sample_state)
     = [''http://localhost:5555/insert-into-table'']"
    by (auto simp: sample_receiver)
  from request_endpoint [of sample_library "Call_GetTable ''items''" sample_state] b8
  have g8: "map req_url (performed sample_library (Call_GetTable ''items'') sample_state)
     = [''http://localhost:5555/get-table'']"
    by (auto simp: sample_receiver)
  from request_endpoint [of sample_library "Call_SelectWhere ''items'' (Some [(''name'', GoString ''pen'')])" sample_state] b9
  have g9: "map req_url (performed sample_library (Call_SelectWhere ''items'' (Some [(''name'', GoString ''pen'')])) sample_state)
     = [''http://localhost:5555/select-where'']"
    by (auto simp: sample_receiver)
  from request_endpoint [of sample_library "Call_SelectColumns ''items'' (Some [''name''])" sample_state] b10
  have g10: "map req_url (performed sample_library (Call_SelectColumns ''items'' (Some [''name''])) sample_state)
     = [''http://localhost:5555/select-columns'']"
    by (auto simp: sample_receiver)
  from request_endpoint [of sample_library "Call_SelectColumnsWhere ''items'' (Some [''price'']) (Some [(''name'', GoString ''pen'')])" sample_state] b11
  have g11: "map req_url (performed sample_library (Call_SelectColumnsWhere ''items'' (Some [''price'']) (Some [(''name'', GoString ''pen'')])) sample_state)
     = [''http://localhost:5555/select-columns-where'']"
    by (auto simp: sample_receiver)
  from request_endpoint [of sample_library "Call_DeleteWhere ''items'' None" sample_state] b12
  have g12: "map req_url (performed sample_library (Call_DeleteWhere ''items'' None) sample_state)
     = [''http://localhost:5555/delete-where'']"
    by (auto simp: sample_receiver)
  from request_endpoint [of sample_library "Call_DeleteTable ''items''" sample_state] b13
  have g13: "map req_url (performed sample_library (Call_DeleteTable ''items'') sample_state)
     = [''http://localhost:5555/delete-table'']"
    by (auto simp: sample_receiver)
  from request_endpoint [of sample_library "Call_UpdateWhere ''items'' (Some [(''name'', GoString ''pen'')]) (Some [(''price'', GoString ''2'')])" sample_state] b14
  have g14: "map req_url (performed sample_library (Call_UpdateWhere ''items'' (Some [(''name'', GoString ''pen'')]) (Some [(''price'', GoString ''2'')])) sample_state)
     = [''http://localhost:5555/update-table'']"
    by (auto simp: sample_receiver)
  from request_endpoint [of sample_library Call_GetDatabases sample_state] b15
  have g15: "map req_url (performed sample_library Call_GetDatabases sample_state)
     = [''http://localhost:5555/get-databases'']"
    by (auto simp: sample_receiver)
  show ?thesis
    by (intro conjI) (fact g1 g2 g3 g4 g5 g6 g7 g8 g9 g10 g11 g12 g13 g14 g15)+
qed

text \<open>
  Claim C5. An operation that is not stopped before its request performs one request,
  which carries the client's key in the header \<^verbatim>\<open>key\<close> and \<^verbatim>\<open>application/json\<close> in
  \<^verbatim>\<open>Content-Type\<close>, for a database-scoped operation the database name in
  \<^verbatim>\<open>database\<close>, and for a table-scoped one its table argument in \<^verbatim>\<open>table\<close>; and
  every request it performs carries them.
\<close>

theorem request_headers:
  "(blocked L c (receiver s) = None \<longrightarrow>
      (\<exists>req. performed L c s = [req] \<and>
         req_header req ''key'' = Some (Key (receiver s)) \<and>
         req_header req ''Content-Type'' = Some ''application/json'' \<and>
         (spec_database_scoped c \<longrightarrow>
            req_header req ''database'' = Some (Database (receiver s))) \<and>
         (\<forall>t. spec_table c = Some t \<longrightarrow> req_header req ''table'' = Some t))) \<and>
   (\<forall>req \<in> set (performed L c s).
      req_header req ''key'' = Some (Key (receiver s)) \<and>
      req_header req ''Content-Type'' = Some ''application/json'' \<and>
      (spec_database_scoped c \<longrightarrow>
         req_header req ''database'' = Some (Database (receiver s))) \<and>
      (\<forall>t. spec_table c = Some t \<longrightarrow> req_header req ''table'' = Some t))"
  by (auto simp: performed_template spec_request_def spec_headers_def split: option.splits)

text \<open>The theorem at the sample service, for each of the fifteen operations.\<close>

theorem request_headers_witness:
  "map (\<lambda>req. (req_header req ''key'', req_header req ''Content-Type'',
            req_header req ''database''))
       (performed sample_library Call_ReadDB sample_state)
     = [(Some ''secret'', Some ''application/json'', Some ''shop'')] \<and>
   map (\<lambda>req. (req_header req ''key'', req_header req ''Content-Type'',
            req_header req ''database''))
       (performed sample_library Call_CreateDB sample_state)
     = [(Some ''secret'', Some ''application/json'', Some ''shop'')] \<and>
   map (\<lambda>req. (req_header req ''key'', req_header req ''Content-Type'',
            req_header req ''database''))
       (performed sample_library Call_DeleteDB sample_state)
     = [(Some ''secret'', Some ''application/json'', Some ''shop'')] \<and>
   map (\<lambda>req. (req_header req ''key'', req_header req ''Content-Type'',
            req_header req ''database''))
       (performed sample_library Call_CheckDBExists sample_state)
     = [(Some ''secret'', Some ''application/json'', Some ''shop'')] \<and>
   map (\<lambda>req. (req_header req ''key'', req_header req ''Content-Type'',
            req_header req ''database'', req_header req ''table''))
       (performed sample_library (Call_CreateTable ''items'' (Some [''name'', ''price''])) sample_state)
     = [(Some ''secret'', Some ''application/json'', Some ''shop'', Some ''items'')] \<and>
   map (\<lambda>req. (req_header req ''key'', req_header req ''Content-Type'',
            req_header req ''database'', req_header req ''table''))
       (performed sample_library (Call_CheckTableExists ''items'') sample_state)
     = [(Some ''secret'', Some ''application/json'', Some ''shop'', Some ''items'')] \<and>
   map (\<lambda>req. (req_header req ''key'', req_header req ''Content-Type'',
            req_header req ''database'', req_header req ''table''))
       (performed sample_library (Call_InsertIntoTable ''items'' (GoMap (Some [(''name'', GoString ''pen'')]))) sample_state)
     = [(Some ''secret'', Some ''application/json'', Some ''shop'', Some ''items'')] \<and>
   map (\<lambda>req. (req_header req ''key'', req_header req ''Content-Type'',
            req_header req ''database'', req_header req ''table''))
       (performed sample_library (Call_GetTable ''items'') sample_state)
     = [(Some ''secret'', Some ''application/json'', Some ''shop'', Some ''items'')] \<and>
   map (\<lambda>req. (req_header req ''key'', req_header req ''Content-Type'',
            req_header req ''database'', req_header req ''table''))
       (performed sample_library (Call_SelectWhere ''items'' (Some [(''name'', GoString ''pen'')])) sample_state)
     = [(Some ''secret'', Some ''application/json'', Some ''shop'', Some ''items'')] \<and>
   map (\<lambda>req. (req_header req ''key'', req_header req ''Content-Type'',
            req_header req ''database'', req_header req ''table''))
       (performed sample_library (Call_SelectColumns ''items'' (Some [''name''])) sample_state)
     = [(Some ''secret'', Some ''application/json'', Some ''shop'', Some ''items'')] \<and>
   map (\<lambda>req. (req_header req ''key'', req_header req ''Content-Type'',
            req_header req ''database'', req_header req ''table''))
       (performed sample_library (Call_SelectColumnsWhere ''items'' (Some [''price'']) (Some [(''name'', GoString ''pen'')])) sample_state)
     = [(Some ''secret'', Some ''application/json'', Some ''shop'', Some ''items'')] \<and>
   map (\<lambda>req. (req_header req ''key'', req_header req ''Content-Type'',
            req_header req ''database'', req_header req ''table''))
       (performed sample_library (Call_DeleteWhere ''items'' None) sample_state)
     = [(Some ''secret'', Some ''application/json'', Some ''shop'', Some ''items'')] \<and>
   map (\<lambda>req. (req_header req ''key'', req_header req ''Content-Type'',
            req_header req ''database'', req_header req ''table''))
       (performed sample_library (Call_DeleteTable ''items'') sample_state)
     = [(Some ''secret'', Some ''application/json'', Some ''shop'', Some ''items'')] \<and>
   map (\<lambda>req. (req_header req ''key'', req_header req ''Content-Type'',
            req_header req ''database'', req_header req ''table''))
       (performed sample_library (Call_UpdateWhere ''items'' (Some [(''name'', GoString ''pen'')]) (Some [(''price'', GoString ''2'')])) sample_state)
     = [(Some ''secret'', Some ''application/json'', Some ''shop'', Some ''items'')] \<and>
   map (\<lambda>req. (req_header req ''key'', req_header req ''Content-Type''))
       (performed sample_library Call_GetDatabases sample_state)
     = [(Some ''secret'', Some ''application/json'')]"
proof -
  have b1: "blocked sample_library Call_ReadDB (receiver sample_state) = None"
    by (simp add: sample_blocked)
  have b2: "blocked sample_library Call_CreateDB (receiver sample_state) = None"
    by (simp add: sample_blocked)
  have b3: "blocked sample_library Call_DeleteDB (receiver sample_state) = None"
    by (simp add: sample_blocked)
  have b4: "blocked sample_library Call_CheckDBExists (receiver sample_state) = None"
    by (simp add: sample_blocked)
  have b5: "blocked sample_library (Call_CreateTable ''items'' (Some [''name'', ''price''])) (receiver sample_state) = None"
    by (simp add: sample_blocked)
  have b6: "blocked sample_library (Call_CheckTableExists ''items'') (receiver sample_state) = None"
    by (simp add: sample_blocked)
  have b7: "blocked sample_library (Call_InsertIntoTable ''items'' (GoMap (Some [(''name'', GoString ''pen'')]))) (receiver sample_state) = None"
    by (simp add: sample_blocked)
  have b8: "blocked sample_library (Call_GetTable ''items'') (receiver sample_state) = None"
    by (simp add: sample_blocked)
  have b9: "blocked sample_library (Call_SelectWhere ''items'' (Some [(''name'', GoString ''pen'')])) (receiver sample_state) = None"
    by (simp add: sample_blocked)
  have b10: "blocked sample_library (Call_SelectColumns ''items'' (Some [''name''])) (receiver sample_state) = None"
    by (simp add: sample_blocked)
  have b11: "blocked sample_library (Call_SelectColumnsWhere ''items'' (Some [''price'']) (Some [(''name'', GoString ''pen'')])) (receiver sample_state) = None"
    by (simp add: sample_blocked)
  have b12: "blocked sample_library (Call_DeleteWhere ''items'' None) (receiver sample_state) = None"
    by (simp add: sample_blocked)
  have b13: "blocked sample_library (Call_DeleteTable ''items'') (receiver sample_state) = None"
    by (simp add: sample_blocked)
  have b14: "blocked sample_library (Call_UpdateWhere ''items'' (Some [(''name'', GoString ''pen'')]) (Some [(''price'', GoString ''2'')])) (receiver sample_state) = None"
    by (simp add: sample_blocked)
  have b15: "blocked sample_library Call_GetDatabases (receiver sample_state) = None"
    by (simp add: sample_blocked)
  from request_headers [of sample_library Call_ReadDB sample_state] b1
  have g1: "map (\<lambda>req. (req_header req ''key'', req_header req ''Content-Type'',
            req_header req ''database''))
       (performed sample_library Call_ReadDB sample_state)
     = [(Some ''secret'', Some ''application/json'', Some ''shop'')]"
    by (auto simp: sample_receiver)
  from request_headers [of sample_library Call_CreateDB sample_state] b2
  have g2: "map (\<lambda>req. (req_header req ''key'', req_header req ''Content-Type'',
            req_header req ''database''))
       (performed sample_library Call_CreateDB sample_state)
     = [(Some ''secret'', Some ''application/json'', Some ''shop'')]"
    by (auto simp: sample_receiver)
  from request_headers [of sample_library Call_DeleteDB sample_state] b3
  have g3: "map (\<lambda>req. (req_header req ''key'', req_header req ''Content-Type'',
            req_header req ''database''))
       (performed sample_library Call_DeleteDB sample_state)
     = [(Some ''secret'', Some ''application/json'', Some ''shop'')]"
    by (auto simp: sample_receiver)
  from request_headers [of sample_library Call_CheckDBExists sample_state] b4
  have g4: "map (\<lambda>req. (req_header req ''key'', req_header req ''Content-Type'',
            req_header req ''database''))
       (performed sample_library Call_CheckDBExists sample_state)
     = [(Some ''secret'', Some ''application/json'', Some ''shop'')]"
    by (auto simp: sample_receiver)
  from request_headers [of sample_library "Call_CreateTable ''items'' (Some [''name'', ''price''])" sample_state] b5
  have g5: "map (\<lambda>req. (req_header req ''key'', req_header req ''Content-Type'',
            req_header req ''database'', req_header req ''table''))
       (performed sample_library (Call_CreateTable ''items'' (Some [''name'', ''price''])) sample_state)
     = [(Some ''secret'', Some ''application/json'', Some ''shop'', Some ''items'')]"
    by (auto simp: sample_receiver)
  from request_headers [of sample_library "Call_CheckTableExists ''items''" sample_state] b6
  have g6: "map (\<lambda>req. (req_header req ''key'', req_header req ''Content-Type'',
            req_header req ''database'', req_header req ''table''))
       (performed sample_library (Call_CheckTableExists ''items'') sample_state)
     = [(Some ''secret'', Some ''application/json'', Some ''shop'', Some ''items'')]"
    by (auto simp: sample_receiver)
  from request_headers [of sample_library "Call_InsertIntoTable ''items'' (GoMap (Some [(''name'', GoString ''pen'')]))" sample_state] b7
  have g7: "map (\<lambda>req. (req_header req ''key'', req_header req ''Content-Type'',
            req_header req ''database'', req_header req ''table''))
       (performed sample_library (Call_InsertIntoTable ''items'' (GoMap (Some [(''name'', GoString ''pen'')]))) sample_state)
     = [(Some ''secret'', Some ''application/json'', Some ''shop'', Some ''items'')]"
    by (auto simp: sample_receiver)
  from request_headers [of sample_library "Call_GetTable ''items''" sample_state] b8
  have g8: "map (\<lambda>req. (req_header req ''key'', req_header req ''Content-Type'',
            req_header req ''database'', req_header req ''table''))
       (performed sample_library (Call_GetTable ''items'') sample_state)
     = [(Some ''secret'', Some ''application/json'', Some ''shop'', Some ''items'')]"
    by (auto simp: sample_receiver)
  from request_headers [of sample_library "Call_SelectWhere ''items'' (Some [(''name'', GoString ''pen'')])" sample_state] b9
  have g9: "map (\<lambda>req. (req_header req ''key'', req_header req ''Content-Type'',
            req_header req ''database'', req_header req ''table''))
       (performed sample_library (Call_SelectWhere ''items'' (Some [(''name'', GoString ''pen'')])) sample_state)
     = [(Some ''secret'', Some ''application/json'', Some ''shop'', Some ''items'')]"
    by (auto simp: sample_receiver)
  from request_headers [of sample_library "Call_SelectColumns ''items'' (Some [''name''])" sample_state] b10
  have g10: "map (\<lambda>req. (req_header req ''key'', req_header req ''Content-Type'',
            req_header req ''database'', req_header req ''table''))
       (performed sample_library (Call_SelectColumns ''items'' (Some [''name''])) sample_state)
     = [(Some ''secret'', Some ''application/json'', Some ''shop'', Some ''items'')]"
    by (auto simp: sample_receiver)
  from request_headers [of sample_library "Call_SelectColumnsWhere ''items'' (Some [''price'']) (Some [(''name'', GoString ''pen'')])" sample_state] b11
  have g11: "map (\<lambda>req. (req_header req ''key'', req_header req ''Content-Type'',
            req_header req ''database'', req_header req ''table''))
       (performed sample_library (Call_SelectColumnsWhere ''items'' (Some [''price'']) (Some [(''name'', GoString ''pen'')])) sample_state)
     = [(Some ''secret'', Some ''application/json'', Some ''shop'', Some ''items'')]"
    by (auto simp: sample_receiver)
  from request_headers [of sample_library "Call_DeleteWhere ''items'' None" sample_state] b12
  have g12: "map (\<lambda>req. (req_header req ''key'', req_header req ''Content-Type'',
            req_header req ''database'', req_header req ''table''))
       (performed sample_library (Call_DeleteWhere ''items'' None) sample_state)
     = [(Some ''secret'', Some ''application/json'', Some ''shop'', Some ''items'')]"
    by (auto simp: sample_receiver)
  from request_headers [of sample_library "Call_DeleteTable ''items''" sample_state] b13
  have g13: "map (\<lambda>req. (req_header req ''key'', req_header req ''Content-Type'',
            req_header req ''database'', req_header req ''table''))
       (performed sample_library (Call_DeleteTable ''items'') sample_state)
     = [(Some ''secret'', Some ''application/json'', Some ''shop'', Some ''items'')]"
    by (auto simp: sample_receiver)
  from request_headers [of sample_library "Call_UpdateWhere ''items'' (Some [(''name'', GoString ''pen'')]) (Some [(''price'', GoString ''2'')])" sample_state] b14
  have g14: "map (\<lambda>req. (req_header req ''key'', req_header req ''Content-Type'',
            req_header req ''database'', req_header req ''table''))
       (performed sample_library (Call_UpdateWhere ''items'' (Some [(''name'', GoString ''pen'')]) (Some [(''price'', GoString ''2'')])) sample_state)
     = [(Some ''secret'', Some ''application/json'', Some ''shop'', Some ''items'')]"
    by (auto simp: sample_receiver)
  from request_headers [of sample_library Call_GetDatabases sample_state] b15
  have g15: "map (\<lambda>req. (req_header req ''key'', req_header req ''Content-Type''))
       (performed sample_library Call_GetDatabases sample_state)
     = [(Some ''secret'', Some ''application/json'')]"
    by (auto simp: sample_receiver)
  show ?thesis
    by (intro conjI) (fact g1 g2 g3 g4 g5 g6 g7 g8 g9 g10 g11 g12 g13 g14 g15)+
qed

text \<open>
  Claim C6. An operation that is not stopped before its request performs one request,
  whose body is the JSON encoding of the map that wraps the operation's arguments under the
  keys of the specification, and is absent for the operations without such a map; and
  every request it performs has that body.
\<close>

theorem request_body:
  "(blocked L c (receiver s) = None \<longrightarrow>
      (\<exists>req. performed L c s = [req] \<and>
         (case spec_body c of
            None \<Rightarrow> req_body req = None
          | Some v \<Rightarrow> (\<exists>b. json_Marshal L v = Inr b \<and> req_body req = Some b)))) \<and>
   (\<forall>req \<in> set (performed L c s).
      (case spec_body c of
         None \<Rightarrow> req_body req = None
       | Some v \<Rightarrow> (\<exists>b. json_Marshal L v = Inr b \<and> req_body req = Some b)))"
  by (auto simp: performed_template spec_request_def spec_wire_body_def blocked_def
      marshal_failure_def split: option.splits if_splits sum.splits)

text \<open>
  The theorem at the sample service, for each of the fifteen operations; the sample
  encoder gives different maps different bodies.
\<close>

theorem request_body_witness:
  "map req_body (performed sample_library Call_ReadDB sample_state)
     = [None] \<and>
   map req_body (performed sample_library Call_CreateDB sample_state)
     = [None] \<and>
   map req_body (performed sample_library Call_DeleteDB sample_state)
     = [None] \<and>
   map req_body (performed sample_library Call_CheckDBExists sample_state)
     = [None] \<and>
   map req_body (performed sample_library (Call_CreateTable ''items'' (Some [''name'', ''price''])) sample_state)
     = [Some (''{'' @ quoted ''attributes'' @ '':['' @ quoted ''name'' @ '','' @ quoted ''price'' @ '']}'')] \<and>
   map req_body (performed sample_library (Call_CheckTableExists ''items'') sample_state)
     = [None] \<and>
   map req_body (performed sample_library (Call_InsertIntoTable ''items'' (GoMap (Some [(''name'', GoString ''pen'')]))) sample_state)
     = [Some (''{'' @ quoted ''values'' @ '':{'' @ quoted ''name'' @ '':'' @ quoted ''pen'' @ ''}}'')] \<and>
   map req_body (performed sample_library (Call_GetTable ''items'') sample_state)
     = [None] \<and>
   map req_body (performed sample_library (Call_SelectWhere ''items'' (Some [(''name'', GoString ''pen'')])) sample_state)
     = [Some (''{'' @ quoted ''conditions'' @ '':{'' @ quoted ''name'' @ '':'' @ quoted ''pen'' @ ''}}'')] \<and>
   map req_body (performed sample_library (Call_SelectColumns ''items'' (Some [''name''])) sample_state)
     = [Some (''{'' @ quoted ''columns'' @ '':['' @ quoted ''name'' @ '']}'')] \<and>
   map req_body (performed sample_library (Call_SelectColumnsWhere ''items'' (Some [''price'']) (Some [(''name'', GoString ''pen'')])) sample_state)
     = [Some (''{'' @ quoted ''columns'' @ '':['' @ quoted ''price'' @ ''],'' @ quoted ''conditions'' @ '':{'' @ quoted ''name'' @ '':'' @ quoted ''pen'' @ ''}}'')] \<and>
   map req_body (performed sample_library (Call_DeleteWhere ''items'' None) sample_state)
     = [Some (''{'' @ quoted ''conditions'' @ '':null}'')] \<and>
   map req_body (performed sample_library (Call_DeleteTable ''items'') sample_state)
     = [None] \<and>
   map req_body (performed sample_library (Call_UpdateWhere ''items'' (Some [(''name'', GoString ''pen'')]) (Some [(''price'', GoString ''2'')])) sample_state)
     = [Some (''{'' @ quoted ''conditions'' @ '':{'' @ quoted ''name'' @ '':'' @ quoted ''pen'' @ ''},'' @ quoted ''values'' @ '':{'' @ quoted ''price'' @ '':'' @ quoted ''2'' @ ''}}'')] \<and>
   map req_body (performed sample_library Call_GetDatabases sample_state)
     = [None]"
proof -
  have b1: "blocked sample_library Call_ReadDB (receiver sample_state) = None"
    by (simp add: sample_blocked)
  have b2: "blocked sample_library Call_CreateDB (receiver sample_state) = None"
    by (simp add: sample_blocked)
  have b3: "blocked sample_library Call_DeleteDB (receiver sample_state) = None"
    by (simp add: sample_blocked)
  have b4: "blocked sample_library Call_CheckDBExists (receiver sample_state) = None"
    by (simp add: sample_blocked)
  have b5: "blocked sample_library (Call_CreateTable ''items'' (Some [''name'', ''price''])) (receiver sample_state) = None"
    by (simp add: sample_blocked)
  have b6: "blocked sample_library (Call_CheckTableExists ''items'') (receiver sample_state) = None"
    by (simp add: sample_blocked)
  have b7: "blocked sample_library (Call_InsertIntoTable ''items'' (GoMap (Some [(''name'', GoString ''pen'')]))) (receiver sample_state) = None"
    by (simp add: sample_blocked)
  have b8: "blocked sample_library (Call_GetTable ''items'') (receiver sample_state) = None"
    by (simp add: sample_blocked)
  have b9: "blocked sample_library (Call_SelectWhere ''items'' (Some [(''name'', GoString ''pen'')])) (receiver sample_state) = None"
    by (simp add: sample_blocked)
  have b10: "blocked sample_library (Call_SelectColumns ''items'' (Some [''name''])) (receiver sample_state) = None"
    by (simp add: sample_blocked)
  have b11: "blocked sample_library (Call_SelectColumnsWhere ''items'' (Some [''price'']) (Some [(''name'', GoString ''pen'')])) (receiver sample_state) = None"
    by (simp add: sample_blocked)
  have b12: "blocked sample_library (Call_DeleteWhere ''items'' None) (receiver sample_state) = None"
    by (simp add: sample_blocked)
  have b13: "blocked sample_library (Call_DeleteTable ''items'') (receiver sample_state) = None"
    by (simp add: sample_blocked)
  have b14: "blocked sample_library (Call_UpdateWhere ''items'' (Some [(''name'', GoString ''pen'')]) (Some [(''price'', GoString ''2'')])) (receiver sample_state) = None"
    by (simp add: sample_blocked)
  have b15: "blocked sample_library Call_GetDatabases (receiver sample_state) = None"
    by (simp add: sample_blocked)
  from request_body [of sample_library Call_ReadDB sample_state] b1
  have g1: "map req_body (performed sample_library Call_ReadDB sample_state)
     = [None]"
    by (auto simp: sample_library_def quoted_def)
  from request_body [of sample_library Call_CreateDB sample_state] b2
  have g2: "map req_body (performed sample_library Call_CreateDB sample_state)
     = [None]"
    by (auto simp: sample_library_def quoted_def)
  from request_body [of sample_library Call_DeleteDB sample_state] b3
  have g3: "map req_body (performed sample_library Call_DeleteDB sample_state)
     = [None]"
    by (auto simp: sample_library_def quoted_def)
  from request_body [of sample_library Call_CheckDBExists sample_state] b4
  have g4: "map req_body (performed sample_library Call_CheckDBExists sample_state)
     = [None]"
    by (auto simp: sample_library_def quoted_def)
  from request_body [of sample_library "Call_CreateTable ''items'' (Some [''name'', ''price''])" sample_state] b5
  have g5: "map req_body (performed sample_library (Call_CreateTable ''items'' (Some [''name'', ''price''])) sample_state)
     = [Some (''{'' @ quoted ''attributes'' @ '':['' @ quoted ''name'' @ '','' @ quoted ''price'' @ '']}'')]"
    by (auto simp: sample_library_def quoted_def)
  from request_body [of sample_library "Call_CheckTableExists ''items''" sample_state] b6
  have g6: "map req_body (performed sample_library (Call_CheckTableExists ''items'') sample_state)
     = [None]"
    by (auto simp: sample_library_def quoted_def)
  from request_body [of sample_library "Call_InsertIntoTable ''items'' (GoMap (Some [(''name'', GoString ''pen'')]))" sample_state] b7
  have g7: "map req_body (performed sample_library (Call_InsertIntoTable ''items'' (GoMap (Some [(''name'', GoString ''pen'')]))) sample_state)
     = [Some (''{'' @ quoted ''values'' @ '':{'' @ quoted ''name'' @ '':'' @ quoted ''pen'' @ ''}}'')]"
    by (auto simp: sample_library_def quoted_def)
  from request_body [of sample_library "Call_GetTable ''items''" sample_state] b8
  have g8: "map req_body (performed sample_library (Call_GetTable ''items'') sample_state)
     = [None]"
    by (auto simp: sample_library_def quoted_def)
  from request_body [of sample_library "Call_SelectWhere ''items'' (Some [(''name'', GoString ''pen'')])" sample_state] b9
  have g9: "map req_body (performed sample_library (Call_SelectWhere ''items'' (Some [(''name'', GoString ''pen'')])) sample_state)
     = [Some (''{'' @ quoted ''conditions'' @ '':{'' @ quoted ''name'' @ '':'' @ quoted ''pen'' @ ''}}'')]"
    by (auto simp: sample_library_def quoted_def)
  from request_body [of sample_library "Call_SelectColumns ''items'' (Some [''name''])" sample_state] b10
  have g10: "map req_body (performed sample_library (Call_SelectColumns ''items'' (Some [''name''])) sample_state)
     = [Some (''{'' @ quoted ''columns'' @ '':['' @ quoted ''name'' @ '']}'')]"
    by (auto simp: sample_library_def quoted_def)
  from request_body [of sample_library "Call_SelectColumnsWhere ''items'' (Some [''price'']) (Some [(''name'', GoString ''pen'')])" sample_state] b11
  have g11: "map req_body (performed sample_library (Call_SelectColumnsWhere ''items'' (Some [''price'']) (Some [(''name'', GoString ''pen'')])) sample_state)
     = [Some (''{'' @ quoted ''columns'' @ '':['' @ quoted ''price'' @ ''],'' @ quoted ''conditions'' @ '':{'' @ quoted ''name'' @ '':'' @ quoted ''pen'' @ ''}}'')]"
    by (auto simp: sample_library_def quoted_def)
  from request_body [of sample_library "Call_DeleteWhere ''items'' None" sample_state] b12
  have g12: "map req_body (performed sample_library (Call_DeleteWhere ''items'' None) sample_state)
     = [Some (''{'' @ quoted ''conditions'' @ '':null}'')]"
    by (auto simp: sample_library_def quoted_def)
  from request_body [of sample_library "Call_DeleteTable ''items''" sample_state] b13
  have g13: "map req_body (performed sample_library (Call_DeleteTable ''items'') sample_state)
     = [None]"
    by (auto simp: sample_library_def quoted_def)
  from request_body [of sample_library "Call_UpdateWhere ''items'' (Some [(''name'', GoString ''pen'')]) (Some [(''price'', GoString ''2'')])" sample_state] b14
  have g14: "map req_body (performed sample_library (Call_UpdateWhere ''items'' (Some [(''name'', GoString ''pen'')]) (Some [(''price'', GoString ''2'')])) sample_state)
     = [Some (''{'' @ quoted ''conditions'' @ '':{'' @ quoted ''name'' @ '':'' @ quoted ''pen'' @ ''},'' @ quoted ''values'' @ '':{'' @ quoted ''price'' @ '':'' @ quoted ''2'' @ ''}}'')]"
    by (auto simp: sample_library_def quoted_def)
  from request_body [of sample_library Call_GetDatabases sample_state] b15
  have g15: "map req_body (performed sample_library Call_GetDatabases sample_state)
     = [None]"
    by (auto simp: sample_library_def quoted_def)
  show ?thesis
    by (intro conjI) (fact g1 g2 g3 g4 g5 g6 g7 g8 g9 g10 g11 g12 g13 g14 g15)+
qed

text \<open>
  Claim C7. A call adds to the requests sent before exactly those it performs, at most
  one; and exactly one when the database name is there (where the operation needs it),
  the body marshals and the request can be constructed.
\<close>

theorem at_most_one_request:
  "sent (snd (run L c s)) = sent s @ performed L c s \<and>
   length (performed L c s) \<le> 1 \<and>
   ((spec_database_scoped c \<longrightarrow> validateDatabase (receiver s) = None) \<and>
    marshal_failure L c = None \<and>
    NewRequest_error L (call_method c) (URL (receiver s) @ spec_endpoint c) = None
    \<longrightarrow> length (performed L c s) = 1)"
  by (auto simp: performed_template run_template template_def blocked_def validateDatabase_def Let_def
      split: option.splits if_splits)

theorem at_most_one_request_witness:
  "length (performed sample_library (Call_CreateTable ''items'' (Some [''name''])) sample_state)
     = 1 \<and>
   length (performed sample_library (Call_InsertIntoTable ''items'' (GoOther 0)) sample_state)
     = 0"
proof -
  let ?c = "Call_CreateTable ''items'' (Some [''name''])"
  have v: "spec_database_scoped ?c \<longrightarrow> validateDatabase (receiver sample_state) = None"
    by (simp add: validateDatabase_def sample_state_def NewMenousDB_def)
  have m: "marshal_failure sample_library ?c = None"
    by (simp add: marshal_failure_def sample_library_def)
  have n: "NewRequest_error sample_library (call_method ?c)
      (URL (receiver sample_state) @ spec_endpoint ?c) = None"
    by (simp add: sample_library_def sample_state_def NewMenousDB_def HasSuffix_def)
  have z: "performed sample_library (Call_InsertIntoTable ''items'' (GoOther 0)) sample_state = []"
    by (simp add: performed_template blocked_def marshal_failure_def sample_library_def
        sample_state_def NewMenousDB_def HasSuffix_def)
  from at_most_one_request [of sample_library ?c sample_state] v m n z
  show ?thesis by simp
qed

text \<open>
  Claim C8. NewMenousDB stores the key and the database name as given, and the URL as
  given when it ends with a slash, with a slash appended otherwise; the stored URL ends
  with a slash, and constructing a client from a stored URL leaves the URL as it is.
\<close>

theorem NewMenousDB_normalises:
  "Key (NewMenousDB url key database) = key \<and>
   Database (NewMenousDB url key database) = database \<and>
   URL (NewMenousDB url key database) = (if spec_ends_with_slash url then url else url @ ''/'') \<and>
   spec_ends_with_slash (URL (NewMenousDB url key database)) \<and>
   URL (NewMenousDB (URL (NewMenousDB url key database)) key' database')
     = URL (NewMenousDB url key database)"
  by (simp add: NewMenousDB_def HasSuffix_slash Let_def) (simp add: spec_ends_with_slash_def)

theorem NewMenousDB_normalises_witness:
  "URL (NewMenousDB ''http://localhost:5555'' ''secret'' ''shop'') = ''http://localhost:5555/'' \<and>
   URL (NewMenousDB ''http://localhost:5555/'' ''secret'' ''shop'') = ''http://localhost:5555/''"
  using NewMenousDB_normalises [of "''http://localhost:5555''" "''secret''" "''shop''"]
    NewMenousDB_normalises [of "''http://localhost:5555/''" "''secret''" "''shop''"]
  by (simp add: spec_ends_with_slash_def)

text \<open>
  Claim C9. No operation changes the client: after any of the fifteen calls, and after
  String, the fields URL, Key and Database are what they were.
\<close>

theorem client_unchanged:
  "URL (receiver (snd (run L c s))) = URL (receiver s) \<and>
   Key (receiver (snd (run L c s))) = Key (receiver s) \<and>
   Database (receiver (snd (run L c s))) = Database (receiver s) \<and>
   receiver (snd (String s)) = receiver s"
  by (simp add: receiver_run String_def)

theorem client_unchanged_witness:
  "receiver (snd (run sample_library (Call_DeleteWhere ''items'' None) sample_state))
     = \<lparr>URL = ''http://localhost:5555/'', Key = ''secret'', Database = ''shop''\<rparr> \<and>
   receiver (snd (String sample_state))
     = \<lparr>URL = ''http://localhost:5555/'', Key = ''secret'', Database = ''shop''\<rparr>"
proof -
  have r: "receiver sample_state
      = \<lparr>URL = ''http://localhost:5555/'', Key = ''secret'', Database = ''shop''\<rparr>"
    by (simp add: sample_state_def NewMenousDB_def HasSuffix_def)
  from client_unchanged [of sample_library "Call_DeleteWhere ''items'' None" sample_state] r
  show ?thesis by (simp add: MenousDB.equality)
qed

text \<open>
  Claim C10. String returns the Database field, so it returns the empty string exactly
  when validateDatabase fails with \<^verbatim>\<open>no database specified\<close>.
\<close>

theorem String_returns_Database:
  "fst (String s) = Database (receiver s) \<and>
   (fst (String s) = [] \<longleftrightarrow>
      validateDatabase (receiver s) = Some (Errorf ''no database specified''))"
  by (simp add: String_def validateDatabase_def)

theorem String_returns_Database_witness:
  "fst (String sample_state) = ''shop'' \<and> validateDatabase (receiver sample_state) = None \<and>
   fst (String unnamed_state) = [] \<and>
   validateDatabase (receiver unnamed_state) = Some (Errorf ''no database specified'')"
  using String_returns_Database [of sample_state] String_returns_Database [of unnamed_state]
  by (simp add: sample_state_def unnamed_state_def NewMenousDB_def validateDatabase_def)

end
